theory Spec2Isabelle
  imports Main "HOL-Library.Word"
begin

section \<open>Shared vocabulary\<close>

text \<open>
  Instants and durations are counted in nanoseconds, as Go's \<open>time.Duration\<close> does.
  \<open>time.Now()\<close> is an input of the model: every function that reads the clock takes
  the reading as an argument.
\<close>

type_synonym time = nat
type_synonym duration = nat
type_synonym byte = "8 word"
type_synonym socket = nat

definition Second :: duration where
  "Second = 1000000000"

text \<open>Go channels: the buffered items in order, and whether \<open>close\<close> was called.\<close>

record 'a chan =
  buf :: "'a list"
  closed :: bool

definition make_chan :: "'a chan" where
  "make_chan = \<lparr>buf = [], closed = False\<rparr>"

text \<open>
  A receive takes the oldest item (\<open>Some (Some x, c')\<close>); on a closed and drained channel
  it yields the zero value with \<open>ok = false\<close> (\<open>Some (None, c)\<close>); on an open empty channel it
  blocks (\<open>None\<close>).
\<close>

definition chan_recv :: "'a chan \<Rightarrow> ('a option \<times> 'a chan) option" where
  "chan_recv c =
     (case buf c of
        x # xs \<Rightarrow> Some (Some x, c\<lparr>buf := xs\<rparr>)
      | [] \<Rightarrow> if closed c then Some (None, c) else None)"

text \<open>A send is modelled at the point where it completes: the item joins the queue.\<close>

definition chan_send :: "'a \<Rightarrow> 'a chan \<Rightarrow> 'a chan" where
  "chan_send x c = c\<lparr>buf := buf c @ [x]\<rparr>"

text \<open>The websocket library's message kinds and close codes that the code names.\<close>

datatype msgType = TextMessage | BinaryMessage | CloseMessage | PingMessage | PongMessage


definition CloseGoingAway :: nat where
  "CloseGoingAway = 1001"

text \<open>
  The payload of a control frame: the empty byte slice \<open>[]byte{}\<close>, or what the library's
  \<open>FormatCloseMessage code reason\<close> builds (kept symbolic).
\<close>

datatype ctlPayload = NoPayload | FormatCloseMessage nat string

text \<open>
  What a read on the socket can fail with: a close frame from the peer (with its code), a
  \<open>net.Error\<close> (with what its \<open>Timeout()\<close> answers), or anything else.
\<close>

datatype connError = CloseError nat | NetError bool | OtherError string

fun IsUnexpectedCloseError :: "connError \<Rightarrow> nat list \<Rightarrow> bool" where
  "IsUnexpectedCloseError (CloseError code) expected = (code \<notin> set expected)"
| "IsUnexpectedCloseError _ expected = False"

datatype goroutine = GoStartReadPump | GoStartWritePump | GoRetryConnection | GoStart

datatype chanName =
  ReadDoneCh | WriteDoneCh | HubReadCh | HubWriteCh
  | ReadExitCh | WriteExitCh | ErrorCh | SendCh | PeerReadCh | PeerWriteCh | ReceiveCh

text \<open>
  The effects a routine has on the world outside its own struct, in the order it performs
  them. Each record below carries such a log (\<open>trace\<close>); it is an observation of the run,
  not a field of the Go struct. Calls to the logger are left out.
\<close>

datatype action =
    Dial string
  | Sleep duration
  | Go goroutine
  | StateSet string
  | ChanSend chanName
  | ChanRecv chanName
  | SetReadDeadline time
  | SetWriteDeadline time
  | WriteControl msgType ctlPayload time
  | WriteMessage msgType "byte list"
  | ConnClose
  | GetDevice string
  | UnregisterConnection string

text \<open>
  A routine either has returned, or is parked at a blocking operation (a receive on an
  empty channel, a read on a socket that has nothing more to deliver).
\<close>

datatype 'a run = Waiting 'a | Returned 'a

fun runState :: "'a run \<Rightarrow> 'a" where
  "runState (Waiting x) = x"
| "runState (Returned x) = x"

text \<open>The entries of a log that put a frame on the wire.\<close>

fun onWire :: "action \<Rightarrow> bool" where
  "onWire (WriteControl t p d) = True"
| "onWire (WriteMessage t b) = True"
| "onWire _ = False"

datatype nerr = NErr string string

section \<open>Package base\<close>

record EventWrapper =
  Room :: string
  Event :: "byte list"

section \<open>The hub connection\<close>

definition retryInterval :: duration where
  "retryInterval = 3 * Second"

record HubConnection =
  ID :: string
  ConnectionType :: string
  writeChannel :: "EventWrapper chan"
  readChannel :: "EventWrapper chan"
  conn :: "socket option"
  hubAddr :: string
  readDone :: "bool chan"
  writeDone :: "bool chan"
  lastPingTime :: time
  state :: string
  trace :: "action list"

text \<open>
  The constructor of \<open>HubConnection\<close> is not part of these sources. \<open>zeroHub\<close> is the struct
  with Go's zero value in every field and its channels made and empty.
\<close>

definition zeroHub :: HubConnection where
  "zeroHub =
     \<lparr>ID = [], ConnectionType = [], writeChannel = make_chan, readChannel = make_chan,
      conn = None, hubAddr = [], readDone = make_chan, writeDone = make_chan,
      lastPingTime = 0, state = [], trace = []\<rparr>"

text \<open>A hub connection that is configured and whose two pumps have signalled completion.\<close>

definition stoppedHub :: HubConnection where
  "stoppedHub =
     zeroHub\<lparr>ConnectionType := ''reciever'', hubAddr := ''hub:7100'',
             readDone := chan_send True make_chan, writeDone := chan_send True make_chan\<rparr>"

fun isDial :: "action \<Rightarrow> bool" where
  "isDial (Dial u) = True"
| "isDial _ = False"

definition emit :: "action list \<Rightarrow> HubConnection \<Rightarrow> HubConnection" where
  "emit as h = h\<lparr>trace := trace h @ as\<rparr>"

text \<open>
  \<open>openConnection\<close>: the dialer's answer is an input, \<open>Inl\<close> the error text or \<open>Inr\<close> the
  new socket.
\<close>

definition hubURL :: "HubConnection \<Rightarrow> string" where
  "hubURL h = ''ws://'' @ hubAddr h @ ''/connect/'' @ ConnectionType h"

definition openConnection :: "string + socket \<Rightarrow> HubConnection \<Rightarrow> nerr option \<times> HubConnection" where
  "openConnection dialed h =
     (let h1 = emit [Dial (hubURL h)] h in
      case dialed of
        Inl err \<Rightarrow>
          (Some (NErr (''failed opening websocket with '' @ hubAddr h @ '': '' @ err)
                      ''connection-error''), h1)
      | Inr c \<Rightarrow> (None, h1\<lparr>conn := Some c\<rparr>))"

text \<open>
  The loop \<open>for err != nil { time.Sleep(retryInterval); err = h.openConnection() }\<close>.
  \<open>dial n\<close> is the dialer's answer to attempt number \<open>n\<close>. The loop has no bound: where it
  never leaves, the value is \<open>None\<close>.
\<close>

partial_function (option) retryLoop ::
  "(nat \<Rightarrow> string + socket) \<Rightarrow> nat \<Rightarrow> nerr option \<Rightarrow> HubConnection \<Rightarrow> HubConnection option"
where
  "retryLoop dial n err h =
     (if err \<noteq> None then
        (case openConnection (dial n) (emit [Sleep retryInterval] h) of
           (err', h') \<Rightarrow> retryLoop dial (Suc n) err' h')
      else Some h)"

definition retryConnection ::
  "(nat \<Rightarrow> string + socket) \<Rightarrow> HubConnection \<Rightarrow> HubConnection run option"
where
  "retryConnection dial h0 =
     (let h1 = emit [StateSet (state h0 @ '' retrying'')] (h0\<lparr>state := state h0 @ '' retrying''\<rparr>) in
      case chan_recv (readDone h1) of
        None \<Rightarrow> Some (Waiting h1)
      | Some (_, rd) \<Rightarrow>
         (let h2 = emit [ChanRecv ReadDoneCh] (h1\<lparr>readDone := rd\<rparr>) in
          case chan_recv (writeDone h2) of
            None \<Rightarrow> Some (Waiting h2)
          | Some (_, wd) \<Rightarrow>
             (let h3 = emit [ChanRecv WriteDoneCh] (h2\<lparr>writeDone := wd\<rparr>) in
              case openConnection (dial 0) h3 of
                (err, h4) \<Rightarrow>
                  (case retryLoop dial 1 err h4 of
                     None \<Rightarrow> None
                   | Some h5 \<Rightarrow>
                       Some (Returned
                         (emit [StateSet ''good'', Go GoStartReadPump, Go GoStartWritePump]
                            (h5\<lparr>state := ''good''\<rparr>)))))))"



text \<open>
  The ping handler installed by \<open>startReadPump\<close>. \<open>PingWait\<close> and \<open>WriteWait\<close> are
  constants of package \<open>incomingconnection\<close>, which is not part of these sources: they are
  parameters (\<open>pw\<close>, \<open>ww\<close>). The three readings of the clock are \<open>t1\<close>, \<open>t2\<close>, \<open>t3\<close>. The
  result of \<open>WriteControl\<close> is dropped by the code, and the handler returns \<open>nil\<close>.
\<close>

definition pingHandler ::
  "duration \<Rightarrow> duration \<Rightarrow> time \<Rightarrow> time \<Rightarrow> time \<Rightarrow> HubConnection \<Rightarrow> connError option \<times> HubConnection"
where
  "pingHandler pw ww t1 t2 t3 h =
     (None, (emit [SetReadDeadline (t1 + pw), WriteControl PongMessage NoPayload (t2 + ww)] h)
              \<lparr>lastPingTime := t3\<rparr>)"

text \<open>
  What \<open>ReadMessage\<close> meets on the socket, one item per arrival: a ping (the library runs
  the handler and keeps reading; a handler error would end the read), a data frame, or a
  read error.
\<close>

datatype readInput =
    PingFrame time time time
  | DataFrame msgType "byte list"
  | ReadError connError

text \<open>
  The \<open>for\<close> loop of \<open>startReadPump\<close>. \<open>base.ParseMessage\<close> is not part of these sources:
  it is the parameter \<open>parse\<close>, \<open>Inl\<close> its error.
\<close>

fun readLoop ::
  "(byte list \<Rightarrow> nerr + EventWrapper) \<Rightarrow> duration \<Rightarrow> duration \<Rightarrow> readInput list \<Rightarrow>
   HubConnection \<Rightarrow> HubConnection run"
where
  "readLoop parse pw ww [] h = Waiting h"
| "readLoop parse pw ww (PingFrame t1 t2 t3 # ins) h =
     (case pingHandler pw ww t1 t2 t3 h of
        (None, h') \<Rightarrow> readLoop parse pw ww ins h'
      | (Some e, h') \<Rightarrow> Returned h')"
| "readLoop parse pw ww (ReadError err # ins) h = Returned h"
| "readLoop parse pw ww (DataFrame t b # ins) h =
     (if t \<noteq> BinaryMessage then readLoop parse pw ww ins h
      else case parse b of
             Inl er \<Rightarrow> readLoop parse pw ww ins h
           | Inr m \<Rightarrow>
               readLoop parse pw ww ins
                 (emit [ChanSend HubReadCh] (h\<lparr>readChannel := chan_send m (readChannel h)\<rparr>)))"

definition readPumpExit :: "HubConnection \<Rightarrow> HubConnection" where
  "readPumpExit h =
     emit [ConnClose, StateSet ''down'', ChanSend ReadDoneCh]
       (h\<lparr>state := ''down'', readDone := chan_send True (readDone h)\<rparr>)"

definition startReadPump ::
  "(byte list \<Rightarrow> nerr + EventWrapper) \<Rightarrow> duration \<Rightarrow> duration \<Rightarrow> time \<Rightarrow> readInput list \<Rightarrow>
   HubConnection \<Rightarrow> HubConnection run"
where
  "startReadPump parse pw ww t0 ins h =
     (case readLoop parse pw ww ins (emit [SetReadDeadline (t0 + pw)] h) of
        Waiting h' \<Rightarrow> Waiting h'
      | Returned h' \<Rightarrow> Returned (readPumpExit h'))"





text \<open>
  Stand-ins for the two framing functions, used where a theorem is run on a concrete input.
\<close>

definition stubParse :: "byte list \<Rightarrow> nerr + EventWrapper" where
  "stubParse b =
     (if b = [] then Inl (NErr ''empty frame'' ''invalid-format'')
      else Inr \<lparr>Room = ''ITB-1101'', Event = b\<rparr>)"





subsection \<open>The state field\<close>

text \<open>The values assigned to \<open>state\<close> in the course of a log, in order.\<close>

fun stateWrites :: "action list \<Rightarrow> string list" where
  "stateWrites [] = []"
| "stateWrites (StateSet s # as) = s # stateWrites as"
| "stateWrites (a # as) = stateWrites as"









section \<open>The repeater's pumping station (peer connection)\<close>

definition TTL :: duration where
  "TTL = 5 * Second"

definition translatorport :: string where
  "translatorport = ''6998''"

text \<open>
  The \<open>Repeater\<close> struct is not part of these sources. The code uses its \<open>HubSendBuffer\<close>
  channel and its \<open>UnregisterConnection\<close> method; the call of the method is an entry of
  the log. The event type \<open>event.Event\<close> comes from another module: it is the type
  parameter \<open>'e\<close>.
\<close>

record 'e Repeater =
  HubSendBuffer :: "'e chan"

record 'e PumpingStation =
  conn :: "socket option"
  ID :: string
  Room :: string
  remoteaddr :: string
  readChannel :: "'e chan"
  writeChannel :: "'e chan"
  readExit :: "bool chan"
  writeExit :: "bool chan"
  errorChan :: "connError chan"
  writeTimeout :: time
  readTimeout :: time
  ReceiveChannel :: "'e chan"
  SendChannel :: "'e chan"
  r :: "'e Repeater"
  ptrace :: "action list"

definition pemit :: "action list \<Rightarrow> 'e PumpingStation \<Rightarrow> 'e PumpingStation" where
  "pemit as c = c\<lparr>ptrace := ptrace c @ as\<rparr>"

text \<open>
  \<open>StartConnection\<close> builds the station, starts \<open>start\<close> as a goroutine and returns at
  once; the second component is the error it returns. The fields it does not set hold Go's
  zero values.
\<close>

definition StartConnection ::
  "string \<Rightarrow> string \<Rightarrow> 'e Repeater \<Rightarrow> 'e PumpingStation \<times> nerr option"
where
  "StartConnection proc room rep =
     (\<lparr>conn = None, ID = proc, Room = room, remoteaddr = [],
       readChannel = make_chan, writeChannel = make_chan,
       readExit = make_chan, writeExit = make_chan, errorChan = make_chan,
       writeTimeout = 0, readTimeout = 0,
       ReceiveChannel = HubSendBuffer rep, SendChannel = make_chan,
       r = rep, ptrace = [Go GoStart]\<rparr>,
      None)"

text \<open>
  A station as \<open>StartConnection\<close> returns it, and the same with a socket and two events
  waiting on its send queue.
\<close>

definition idleStation :: "nat PumpingStation" where
  "idleStation = fst (StartConnection ''CP1'' ''ITB-1101'' \<lparr>HubSendBuffer = make_chan\<rparr>)"

definition busyStation :: "nat PumpingStation" where
  "busyStation = idleStation\<lparr>conn := Some 7, SendChannel := \<lparr>buf = [11, 12], closed = False\<rparr>\<rparr>"

definition openConn :: "string \<Rightarrow> string + socket \<Rightarrow> 'e PumpingStation \<Rightarrow> nerr option \<times> 'e PumpingStation" where
  "openConn addr dialed c =
     (let c1 = pemit [Dial (''ws://'' @ addr @ '':'' @ translatorport @ ''/repeaterconn'')]
                 (c\<lparr>remoteaddr := addr\<rparr>)
      in case dialed of
           Inl err \<Rightarrow>
             (Some (NErr (''failed opening websocket with '' @ addr @ '': '' @ err) ''connection-error''),
              c1)
         | Inr s \<Rightarrow> (None, c1\<lparr>conn := Some s\<rparr>))"

text \<open>
  The \<open>select\<close> of \<open>startPumper\<close>: the scheduler's choice of the case that fires, with the
  readings of the clock that case takes. There is no loop around the \<open>select\<close>: it is
  executed once, and only the first choice of the schedule is looked at.
\<close>

datatype pumperSel = SelTick time time | SelError | SelSend time | SelRead time

text \<open>
  A receive without \<open>ok\<close> on a closed channel yields the zero value of the element type,
  the parameter \<open>zero\<close>.
\<close>

definition orZero :: "'a \<Rightarrow> 'a option \<Rightarrow> 'a" where
  "orZero zero v = (case v of None \<Rightarrow> zero | Some x \<Rightarrow> x)"

fun pumperSelect :: "'e \<Rightarrow> pumperSel \<Rightarrow> 'e PumpingStation \<Rightarrow> 'e PumpingStation run" where
  "pumperSelect zero (SelTick now1 now2) c =
     (if readTimeout c < now1 \<and> writeTimeout c < now2 then Returned c else Returned c)"
| "pumperSelect zero SelError c =
     (case chan_recv (errorChan c) of
        None \<Rightarrow> Waiting c
      | Some (err, ch) \<Rightarrow> Returned (pemit [ChanRecv ErrorCh] (c\<lparr>errorChan := ch\<rparr>)))"
| "pumperSelect zero (SelSend now) c =
     (case chan_recv (SendChannel c) of
        None \<Rightarrow> Waiting c
      | Some (e, ch) \<Rightarrow>
          Returned (pemit [ChanRecv SendCh, ChanSend PeerWriteCh]
                      (c\<lparr>SendChannel := ch, writeTimeout := now + TTL,
                         writeChannel := chan_send (orZero zero e) (writeChannel c)\<rparr>)))"
| "pumperSelect zero (SelRead now) c =
     (case chan_recv (readChannel c) of
        None \<Rightarrow> Waiting c
      | Some (e, ch) \<Rightarrow>
          Returned (pemit [ChanRecv PeerReadCh, ChanSend ReceiveCh]
                      (c\<lparr>readChannel := ch, readTimeout := now + TTL,
                         ReceiveChannel := chan_send (orZero zero e) (ReceiveChannel c)\<rparr>)))"

text \<open>The deferred function of \<open>startPumper\<close>.\<close>

definition pumperDeferred :: "'e PumpingStation \<Rightarrow> 'e PumpingStation" where
  "pumperDeferred c =
     pemit [UnregisterConnection (ID c), ChanSend WriteExitCh, ChanSend ReadExitCh, Sleep TTL, ConnClose]
       (c\<lparr>writeExit := chan_send True (writeExit c), readExit := chan_send True (readExit c)\<rparr>)"

definition startPumper ::
  "'e \<Rightarrow> time \<Rightarrow> time \<Rightarrow> pumperSel list \<Rightarrow> 'e PumpingStation \<Rightarrow> 'e PumpingStation run"
where
  "startPumper zero t1 t2 sels c =
     (let c1 = c\<lparr>readTimeout := t1 + TTL, writeTimeout := t2 + TTL\<rparr> in
      case sels of
        [] \<Rightarrow> Waiting c1
      | s # rest \<Rightarrow>
          (case pumperSelect zero s c1 of
             Waiting c2 \<Rightarrow> Waiting c2
           | Returned c2 \<Rightarrow> Returned (pumperDeferred c2)))"

text \<open>
  \<open>start\<close>, the goroutine of \<open>StartConnection\<close>. \<open>dev\<close> is the answer of the device
  database (\<open>Inr\<close> the device's address), \<open>dialed\<close> the dialer's.
\<close>

definition start ::
  "string + string \<Rightarrow> string + socket \<Rightarrow> 'e \<Rightarrow> time \<Rightarrow> time \<Rightarrow> pumperSel list \<Rightarrow>
   'e PumpingStation \<Rightarrow> 'e PumpingStation run"
where
  "start dev dialed zero t1 t2 sels c =
     (let c1 = pemit [GetDevice (ID c)] c in
      case dev of
        Inl er \<Rightarrow> Returned (pemit [UnregisterConnection (ID c1)] c1)
      | Inr addr \<Rightarrow>
          (case openConn addr dialed c1 of
             (Some err, c2) \<Rightarrow> Returned (pemit [UnregisterConnection (ID c2)] c2)
           | (None, c2) \<Rightarrow>
               startPumper zero t1 t2 sels (pemit [Go GoStartReadPump, Go GoStartWritePump] c2)))"

text \<open>
  The read pump of the station. Each item of the input is what one \<open>ReadJSON\<close> returns,
  with the reading of the clock taken after it.
\<close>

datatype 'e readJSON = JSONEvent 'e | JSONError connError

fun isTimeout :: "connError \<Rightarrow> bool" where
  "isTimeout (NetError t) = t"
| "isTimeout _ = False"

definition reportError :: "connError \<Rightarrow> 'e PumpingStation \<Rightarrow> 'e PumpingStation" where
  "reportError err c = pemit [ChanSend ErrorCh] (c\<lparr>errorChan := chan_send err (errorChan c)\<rparr>)"

fun readLoop_repeater :: "('e readJSON \<times> time) list \<Rightarrow> 'e PumpingStation \<Rightarrow> 'e PumpingStation run" where
  "readLoop_repeater [] c = Waiting c"
| "readLoop_repeater ((JSONError err, now) # ins) c =
     (if IsUnexpectedCloseError err [CloseGoingAway] then Returned (reportError err c)
      else if isTimeout err then
        (case chan_recv (readExit c) of
           Some (_, ch) \<Rightarrow> Returned (pemit [ChanRecv ReadExitCh] (c\<lparr>readExit := ch\<rparr>))
         | None \<Rightarrow> readLoop_repeater ins (pemit [SetReadDeadline (now + TTL)] c))
      else Returned (reportError err c))"
| "readLoop_repeater ((JSONEvent m, now) # ins) c =
     readLoop_repeater ins
       (pemit [ChanSend PeerReadCh, SetReadDeadline (now + TTL)]
          (c\<lparr>readChannel := chan_send m (readChannel c)\<rparr>))"

definition startReadPump_repeater ::
  "time \<Rightarrow> ('e readJSON \<times> time) list \<Rightarrow> 'e PumpingStation \<Rightarrow> 'e PumpingStation run"
where
  "startReadPump_repeater t0 ins c = readLoop_repeater ins (pemit [SetReadDeadline (t0 + TTL)] c)"

section \<open>Facts about the hub connection\<close>

lemma hubURL_emit [simp]: "hubURL (emit as h) = hubURL h"
  by (simp add: hubURL_def emit_def)

lemma hubURL_upd [simp]:
  "hubURL (h\<lparr>HubConnection.conn := c\<rparr>) = hubURL h"
  "hubURL (h\<lparr>state := s\<rparr>) = hubURL h"
  "hubURL (h\<lparr>readDone := rd\<rparr>) = hubURL h"
  "hubURL (h\<lparr>writeDone := wd\<rparr>) = hubURL h"
  by (simp_all add: hubURL_def)

lemma emit_emit [simp]: "emit bs (emit as h) = emit (as @ bs) h"
  by (simp add: emit_def)

lemma emit_upd [simp]:
  "emit as (h\<lparr>HubConnection.conn := c\<rparr>) = (emit as h)\<lparr>HubConnection.conn := c\<rparr>"
  "emit as (h\<lparr>state := s\<rparr>) = (emit as h)\<lparr>state := s\<rparr>"
  "emit as (h\<lparr>readDone := rd\<rparr>) = (emit as h)\<lparr>readDone := rd\<rparr>"
  "emit as (h\<lparr>writeDone := wd\<rparr>) = (emit as h)\<lparr>writeDone := wd\<rparr>"
  by (simp_all add: emit_def)

lemma emit_sel [simp]:
  "trace (emit as h) = trace h @ as"
  "state (emit as h) = state h"
  "HubConnection.conn (emit as h) = HubConnection.conn h"
  "readDone (emit as h) = readDone h"
  "writeDone (emit as h) = writeDone h"
  "HubConnection.readChannel (emit as h) = HubConnection.readChannel h"
  "HubConnection.writeChannel (emit as h) = HubConnection.writeChannel h"
  "lastPingTime (emit as h) = lastPingTime h"
  by (simp_all add: emit_def)

lemma retryLoop_never_aux:
  assumes "retryLoop dial n err h = Some res"
  shows "\<not> ((\<forall>m\<ge>n. isl (dial m)) \<and> err \<noteq> None)"
proof (rule retryLoop.raw_induct
    [where P = "\<lambda>dial n err h res. \<not> ((\<forall>m\<ge>n. isl (dial m)) \<and> err \<noteq> None)", OF _ assms])
  fix rl and dial :: "nat \<Rightarrow> string + socket" and n and err :: "nerr option" and h res
  assume ih: "\<And>dial n err h res. rl dial n err h = Some res \<Longrightarrow>
                 \<not> ((\<forall>m\<ge>n. isl (dial m)) \<and> err \<noteq> None)"
    and step: "(if err \<noteq> None
        then case openConnection (dial n) (emit [Sleep retryInterval] h) of
             (err', h') \<Rightarrow> rl dial (Suc n) err' h'
        else Some h) = Some res"
  show "\<not> ((\<forall>m\<ge>n. isl (dial m)) \<and> err \<noteq> None)"
  proof
    assume a: "(\<forall>m\<ge>n. isl (dial m)) \<and> err \<noteq> None"
    then obtain e where d: "dial n = Inl e" by (cases "dial n") auto
    from a have later: "\<forall>m\<ge>Suc n. isl (dial m)" by simp
    from step a d obtain err' h' where
      "rl dial (Suc n) err' h' = Some res" "err' \<noteq> None"
      by (auto simp: openConnection_def Let_def split: prod.splits)
    with ih later show False by blast
  qed
qed

lemma retryLoop_never:
  "\<forall>m\<ge>n. isl (dial m) \<Longrightarrow> retryLoop dial n (Some e) h = None"
  using retryLoop_never_aux [of dial n "Some e" h] by (cases "retryLoop dial n (Some e) h") auto

lemma retryLoop_None: "retryLoop dial n None h = Some h"
  by (subst retryLoop.simps) simp

lemma retryLoop_Some:
  "retryLoop dial n (Some e) h =
     (case openConnection (dial n) (emit [Sleep retryInterval] h) of
        (err', h') \<Rightarrow> retryLoop dial (Suc n) err' h')"
  by (subst retryLoop.simps) simp

lemma openConnection_fail:
  "isl d \<Longrightarrow> \<exists>e. openConnection d h = (Some e, emit [Dial (hubURL h)] h)"
  by (cases d) (simp_all add: openConnection_def)

lemma openConnection_Inr:
  "openConnection (Inr c) h = (None, (emit [Dial (hubURL h)] h)\<lparr>HubConnection.conn := Some c\<rparr>)"
  by (simp add: openConnection_def)

lemma retryLoop_success:
  "\<forall>i<j. isl (dial (n + i)) \<Longrightarrow> dial (n + j) = Inr c \<Longrightarrow>
   retryLoop dial n (Some e) h =
     Some ((emit (concat (replicate (Suc j) [Sleep retryInterval, Dial (hubURL h)])) h)
             \<lparr>HubConnection.conn := Some c\<rparr>)"
proof (induction j arbitrary: n e h)
  case 0
  then show ?case
    by (simp add: retryLoop_Some retryLoop_None openConnection_Inr)
next
  case (Suc j)
  from Suc.prems(1) have "isl (dial n)" by force
  then obtain e' where oc:
    "openConnection (dial n) (emit [Sleep retryInterval] h) =
       (Some e', emit [Sleep retryInterval, Dial (hubURL h)] h)"
    using openConnection_fail [of "dial n" "emit [Sleep retryInterval] h"] by auto
  have a: "\<forall>i<j. isl (dial (Suc n + i))" using Suc.prems(1) by auto
  have b: "dial (Suc n + j) = Inr c" using Suc.prems(2) by simp
  have "retryLoop dial n (Some e) h =
          retryLoop dial (Suc n) (Some e') (emit [Sleep retryInterval, Dial (hubURL h)] h)"
    by (simp add: retryLoop_Some [of dial n e h] oc)
  also have "\<dots> = Some ((emit (concat (replicate (Suc (Suc j)) [Sleep retryInterval, Dial (hubURL h)])) h)
             \<lparr>HubConnection.conn := Some c\<rparr>)"
    by (simp add: Suc.IH [OF a b])
  finally show ?case .
qed

lemma retry_dials:
  assumes fails: "\<forall>i<K. isl (dial i)" and ok: "dial K = Inr c"
  shows "\<exists>err h4. openConnection (dial 0) h = (err, h4) \<and>
           retryLoop dial (Suc 0) err h4 =
             Some ((emit (Dial (hubURL h) # concat (replicate K [Sleep retryInterval, Dial (hubURL h)])) h)
                   \<lparr>HubConnection.conn := Some c\<rparr>)"
proof (cases K)
  case 0
  with ok show ?thesis by (simp add: openConnection_Inr retryLoop_None)
next
  case (Suc j)
  with fails have "isl (dial 0)" by simp
  then obtain e where oc: "openConnection (dial 0) h = (Some e, emit [Dial (hubURL h)] h)"
    using openConnection_fail [of "dial 0" h] by auto
  have a: "\<forall>i<j. isl (dial (Suc 0 + i))" using fails Suc by simp
  have b: "dial (Suc 0 + j) = Inr c" using ok Suc by simp
  show ?thesis
    by (simp add: oc retryLoop_success [OF a b] Suc)
qed

lemma retry_dials_never:
  assumes "\<forall>i. isl (dial i)"
  shows "\<exists>err h4. openConnection (dial 0) h = (err, h4) \<and> retryLoop dial (Suc 0) err h4 = None"
proof -
  from assms have "isl (dial 0)" by simp
  then obtain e where oc: "openConnection (dial 0) h = (Some e, emit [Dial (hubURL h)] h)"
    using openConnection_fail [of "dial 0" h] by auto
  show ?thesis using assms by (simp add: oc retryLoop_never)
qed

lemma retryConnection_returns:
  assumes rd: "chan_recv (readDone h) = Some (v, rd)"
    and wd: "chan_recv (writeDone h) = Some (w, wd)"
    and fails: "\<forall>i<K. isl (dial i)" and ok: "dial K = Inr c"
  shows "\<exists>h'. retryConnection dial h = Some (Returned h') \<and>
            trace h' = trace h @
              [StateSet (state h @ '' retrying''), ChanRecv ReadDoneCh, ChanRecv WriteDoneCh,
               Dial (hubURL h)] @
              concat (replicate K [Sleep retryInterval, Dial (hubURL h)]) @
              [StateSet ''good'', Go GoStartReadPump, Go GoStartWritePump] \<and>
            state h' = ''good'' \<and> HubConnection.conn h' = Some c"
proof -
  let ?h3 = "(emit [StateSet (state h @ '' retrying''), ChanRecv ReadDoneCh, ChanRecv WriteDoneCh] h)
               \<lparr>state := state h @ '' retrying'', readDone := rd, writeDone := wd\<rparr>"
  from retry_dials [OF fails ok, of ?h3] obtain err h4 where
    oc: "openConnection (dial 0) ?h3 = (err, h4)" and
    rl: "retryLoop dial (Suc 0) err h4 =
           Some ((emit (Dial (hubURL h) # concat (replicate K [Sleep retryInterval, Dial (hubURL h)])) ?h3)
                   \<lparr>HubConnection.conn := Some c\<rparr>)"
    by auto
  show ?thesis
    using rd wd by (simp add: retryConnection_def oc rl)
qed

lemma dialCount_replicate:
  "length (filter isDial (concat (replicate K [Sleep d, Dial u]))) = K"
  by (induction K) simp_all

text \<open>
  Claim C3. \<open>retryConnection\<close> first waits for the read-completion and then for the
  write-completion indicator: while either is missing it is parked and has dialled nothing.
  Once both were received it dials, and after every failed attempt sleeps 3 seconds and dials
  again, without a bound: if the first \<open>K\<close> attempts fail and the next one succeeds, it makes
  exactly \<open>K + 1\<close> dials with a 3-second sleep between consecutive ones, and only then sets
  the state to \<open>good\<close> and starts both pumps; if every attempt fails it never returns.
\<close>

theorem retryConnection_exact:
  "(chan_recv (readDone h) = None \<longrightarrow>
      (\<exists>h'. retryConnection dial h = Some (Waiting h') \<and>
            trace h' = trace h @ [StateSet (state h @ '' retrying'')]))
   \<and> (chan_recv (readDone h) = Some (v, rd) \<and> chan_recv (writeDone h) = None \<longrightarrow>
      (\<exists>h'. retryConnection dial h = Some (Waiting h') \<and>
            trace h' = trace h @ [StateSet (state h @ '' retrying''), ChanRecv ReadDoneCh]))
   \<and> (chan_recv (readDone h) = Some (v, rd) \<and> chan_recv (writeDone h) = Some (w, wd) \<and>
       (\<forall>i<K. isl (dial i)) \<and> dial K = Inr c \<longrightarrow>
      (\<exists>h'. retryConnection dial h = Some (Returned h') \<and>
            trace h' = trace h @
              [StateSet (state h @ '' retrying''), ChanRecv ReadDoneCh, ChanRecv WriteDoneCh,
               Dial (hubURL h)] @
              concat (replicate K [Sleep 3000000000, Dial (hubURL h)]) @
              [StateSet ''good'', Go GoStartReadPump, Go GoStartWritePump] \<and>
            length (filter isDial (trace h')) = length (filter isDial (trace h)) + K + 1 \<and>
            state h' = ''good'' \<and> HubConnection.conn h' = Some c))
   \<and> (chan_recv (readDone h) = Some (v, rd) \<and> chan_recv (writeDone h) = Some (w, wd) \<and>
       (\<forall>i. isl (dial i)) \<longrightarrow> retryConnection dial h = None)"
proof (intro conjI impI)
  assume "chan_recv (readDone h) = None"
  then show "\<exists>h'. retryConnection dial h = Some (Waiting h') \<and>
            trace h' = trace h @ [StateSet (state h @ '' retrying'')]"
    by (simp add: retryConnection_def)
next
  assume "chan_recv (readDone h) = Some (v, rd) \<and> chan_recv (writeDone h) = None"
  then show "\<exists>h'. retryConnection dial h = Some (Waiting h') \<and>
            trace h' = trace h @ [StateSet (state h @ '' retrying''), ChanRecv ReadDoneCh]"
    by (simp add: retryConnection_def)
next
  assume a: "chan_recv (readDone h) = Some (v, rd) \<and> chan_recv (writeDone h) = Some (w, wd) \<and>
       (\<forall>i<K. isl (dial i)) \<and> dial K = Inr c"
  then have rd: "chan_recv (readDone h) = Some (v, rd)"
    and wd: "chan_recv (writeDone h) = Some (w, wd)"
    and fails: "\<forall>i<K. isl (dial i)" and ok: "dial K = Inr c" by simp_all
  have ri: "retryInterval = 3000000000" by (simp add: retryInterval_def Second_def)
  from retryConnection_returns [OF rd wd fails ok] obtain h' where
    h': "retryConnection dial h = Some (Returned h')"
        "trace h' = trace h @
              [StateSet (state h @ '' retrying''), ChanRecv ReadDoneCh, ChanRecv WriteDoneCh,
               Dial (hubURL h)] @
              concat (replicate K [Sleep retryInterval, Dial (hubURL h)]) @
              [StateSet ''good'', Go GoStartReadPump, Go GoStartWritePump]"
        "state h' = ''good''" "HubConnection.conn h' = Some c"
    by blast
  from h' show "\<exists>h'. retryConnection dial h = Some (Returned h') \<and>
            trace h' = trace h @
              [StateSet (state h @ '' retrying''), ChanRecv ReadDoneCh, ChanRecv WriteDoneCh,
               Dial (hubURL h)] @
              concat (replicate K [Sleep 3000000000, Dial (hubURL h)]) @
              [StateSet ''good'', Go GoStartReadPump, Go GoStartWritePump] \<and>
            length (filter isDial (trace h')) = length (filter isDial (trace h)) + K + 1 \<and>
            state h' = ''good'' \<and> HubConnection.conn h' = Some c"
    by (simp add: dialCount_replicate ri)
next
  assume a: "chan_recv (readDone h) = Some (v, rd) \<and> chan_recv (writeDone h) = Some (w, wd) \<and>
       (\<forall>i. isl (dial i))"
  then have all: "\<forall>i. isl (dial i)" by simp
  let ?h3 = "(emit [StateSet (state h @ '' retrying''), ChanRecv ReadDoneCh, ChanRecv WriteDoneCh] h)
               \<lparr>state := state h @ '' retrying'', readDone := rd, writeDone := wd\<rparr>"
  from retry_dials_never [OF all, of ?h3] obtain err h4 where
    oc: "openConnection (dial 0) ?h3 = (err, h4)" and rl: "retryLoop dial (Suc 0) err h4 = None"
    by auto
  from a show "retryConnection dial h = None"
    by (simp add: retryConnection_def oc rl)
qed

theorem retryConnection_exact_witness:
  "(\<exists>h'. retryConnection (\<lambda>n. if n < 2 then Inl ''refused'' else Inr 7) stoppedHub
            = Some (Returned h') \<and>
         trace h' =
           [StateSet '' retrying'', ChanRecv ReadDoneCh, ChanRecv WriteDoneCh,
            Dial ''ws://hub:7100/connect/reciever'',
            Sleep 3000000000, Dial ''ws://hub:7100/connect/reciever'',
            Sleep 3000000000, Dial ''ws://hub:7100/connect/reciever'',
            StateSet ''good'', Go GoStartReadPump, Go GoStartWritePump] \<and>
         length (filter isDial (trace h')) = 3 \<and>
         state h' = ''good'' \<and> HubConnection.conn h' = Some 7)
   \<and> retryConnection (\<lambda>n. Inl ''refused'') stoppedHub = None
   \<and> (\<exists>h'. retryConnection (\<lambda>n. Inr 7) zeroHub = Some (Waiting h') \<and>
         trace h' = [StateSet '' retrying''])
   \<and> (\<exists>h'. retryConnection (\<lambda>n. Inr 7) (zeroHub\<lparr>readDone := chan_send True make_chan\<rparr>)
            = Some (Waiting h') \<and>
         trace h' = [StateSet '' retrying'', ChanRecv ReadDoneCh])"
proof -
  have rd: "chan_recv (readDone stoppedHub) = Some (Some True, make_chan)"
    and wd: "chan_recv (writeDone stoppedHub) = Some (Some True, make_chan)"
    by (simp_all add: stoppedHub_def zeroHub_def chan_recv_def chan_send_def make_chan_def)
  have url: "hubURL stoppedHub = ''ws://hub:7100/connect/reciever''"
    by (simp add: hubURL_def stoppedHub_def zeroHub_def)
  have st: "state stoppedHub = []" "trace stoppedHub = []"
    by (simp_all add: stoppedHub_def zeroHub_def)
  have one: "\<exists>h'. retryConnection (\<lambda>n. if n < 2 then Inl ''refused'' else Inr 7) stoppedHub
            = Some (Returned h') \<and>
         trace h' =
           [StateSet '' retrying'', ChanRecv ReadDoneCh, ChanRecv WriteDoneCh,
            Dial ''ws://hub:7100/connect/reciever'',
            Sleep 3000000000, Dial ''ws://hub:7100/connect/reciever'',
            Sleep 3000000000, Dial ''ws://hub:7100/connect/reciever'',
            StateSet ''good'', Go GoStartReadPump, Go GoStartWritePump] \<and>
         length (filter isDial (trace h')) = 3 \<and>
         state h' = ''good'' \<and> HubConnection.conn h' = Some 7"
    using retryConnection_exact
      [where h = stoppedHub and v = "Some True" and rd = make_chan and w = "Some True"
         and wd = make_chan and K = "Suc (Suc 0)" and c = 7
         and dial = "\<lambda>n. if n < 2 then Inl ''refused'' else Inr 7"]
    by (simp add: rd wd url st numeral_3_eq_3)
  have two: "retryConnection (\<lambda>n. Inl ''refused'') stoppedHub = None"
    using retryConnection_exact
      [where h = stoppedHub and v = "Some True" and rd = make_chan and w = "Some True"
         and wd = make_chan and dial = "\<lambda>n. Inl ''refused''"]
    by (simp add: rd wd)
  have three: "\<exists>h'. retryConnection (\<lambda>n. Inr 7) zeroHub = Some (Waiting h') \<and>
         trace h' = [StateSet '' retrying'']"
    using retryConnection_exact [where h = zeroHub and dial = "\<lambda>n. Inr 7"]
    by (simp add: zeroHub_def chan_recv_def make_chan_def)
  have four: "\<exists>h'. retryConnection (\<lambda>n. Inr 7) (zeroHub\<lparr>readDone := chan_send True make_chan\<rparr>)
            = Some (Waiting h') \<and>
         trace h' = [StateSet '' retrying'', ChanRecv ReadDoneCh]"
    using retryConnection_exact
      [where h = "zeroHub\<lparr>readDone := chan_send True make_chan\<rparr>" and dial = "\<lambda>n. Inr 7"
         and v = "Some True" and rd = make_chan]
    by (simp add: zeroHub_def chan_recv_def chan_send_def make_chan_def)
  from one two three four show ?thesis by blast
qed

text \<open>
  Claim C8. When a ping arrives, the read loop runs the handler and is then reading again:
  the handler has set the read deadline to the clock's reading plus \<open>PingWait\<close>, written
  one pong control frame with an empty payload and nothing else to the wire, recorded the
  time in \<open>lastPingTime\<close> and returned \<open>nil\<close>.
\<close>

theorem ping_acknowledged:
  "pingHandler pw ww t1 t2 t3 h =
     (None, h\<lparr>trace := trace h @ [SetReadDeadline (t1 + pw), WriteControl PongMessage NoPayload (t2 + ww)],
              lastPingTime := t3\<rparr>)
   \<and> readLoop parse pw ww [PingFrame t1 t2 t3] h =
       Waiting
         (h\<lparr>trace := trace h @ [SetReadDeadline (t1 + pw), WriteControl PongMessage NoPayload (t2 + ww)],
            lastPingTime := t3\<rparr>)
   \<and> readLoop parse pw ww (PingFrame t1 t2 t3 # ins) h =
       readLoop parse pw ww ins
         (h\<lparr>trace := trace h @ [SetReadDeadline (t1 + pw), WriteControl PongMessage NoPayload (t2 + ww)],
            lastPingTime := t3\<rparr>)
   \<and> startReadPump parse pw ww t0 [PingFrame t1 t2 t3] h =
       Waiting
         (h\<lparr>trace := trace h @
              [SetReadDeadline (t0 + pw), SetReadDeadline (t1 + pw),
               WriteControl PongMessage NoPayload (t2 + ww)],
            lastPingTime := t3\<rparr>)
   \<and> filter onWire (trace (runState (readLoop parse pw ww [PingFrame t1 t2 t3] h))) =
       filter onWire (trace h) @ [WriteControl PongMessage NoPayload (t2 + ww)]"
  by (simp add: pingHandler_def emit_def startReadPump_def)

lemma readLoop_valid:
  "\<forall>b\<in>set bs. \<not> isl (parse b) \<Longrightarrow>
   readLoop parse pw ww (map (DataFrame BinaryMessage) bs @ rest) h =
   readLoop parse pw ww rest
     (h\<lparr>HubConnection.readChannel :=
          (HubConnection.readChannel h)\<lparr>buf := buf (HubConnection.readChannel h) @ map (projr \<circ> parse) bs\<rparr>,
        trace := trace h @ replicate (length bs) (ChanSend HubReadCh)\<rparr>)"
proof (induction bs arbitrary: h)
  case Nil
  show ?case by simp
next
  case (Cons b bs)
  from Cons.prems obtain m where m: "parse b = Inr m" by (cases "parse b") auto
  from Cons.prems have rest: "\<forall>b\<in>set bs. \<not> isl (parse b)" by simp
  show ?case
    by (simp add: m Cons.IH [OF rest] emit_def chan_send_def replicate_app_Cons_same)
qed

text \<open>
  Claim C7. The hub's read loop drops a frame that is not binary and goes on; it drops a
  binary frame that does not parse and goes on; and after one such corrupt frame followed by
  \<open>N\<close> binary frames that parse, exactly the \<open>N\<close> parsed events have been sent to
  \<open>readChannel\<close>, in the order of arrival, and the loop is still reading.
\<close>

theorem readLoop_resilient:
  "(t \<noteq> BinaryMessage \<longrightarrow>
      readLoop parse pw ww (DataFrame t b # ins) h = readLoop parse pw ww ins h)
   \<and> (isl (parse b) \<longrightarrow>
      readLoop parse pw ww (DataFrame BinaryMessage b # ins) h = readLoop parse pw ww ins h)
   \<and> ((t \<noteq> BinaryMessage \<or> isl (parse b)) \<and> (\<forall>v\<in>set bs. \<not> isl (parse v)) \<longrightarrow>
      readLoop parse pw ww (DataFrame t b # map (DataFrame BinaryMessage) bs @ ins) h =
      readLoop parse pw ww ins
        (h\<lparr>HubConnection.readChannel :=
             (HubConnection.readChannel h)\<lparr>buf := buf (HubConnection.readChannel h) @ map (projr \<circ> parse) bs\<rparr>,
           trace := trace h @ replicate (length bs) (ChanSend HubReadCh)\<rparr>)
      \<and> readLoop parse pw ww (DataFrame t b # map (DataFrame BinaryMessage) bs) h =
        Waiting
          (h\<lparr>HubConnection.readChannel :=
             (HubConnection.readChannel h)\<lparr>buf := buf (HubConnection.readChannel h) @ map (projr \<circ> parse) bs\<rparr>,
           trace := trace h @ replicate (length bs) (ChanSend HubReadCh)\<rparr>))"
proof (intro conjI impI)
  assume "t \<noteq> BinaryMessage"
  then show "readLoop parse pw ww (DataFrame t b # ins) h = readLoop parse pw ww ins h" by simp
next
  assume "isl (parse b)"
  then show "readLoop parse pw ww (DataFrame BinaryMessage b # ins) h = readLoop parse pw ww ins h"
    by (cases "parse b") simp_all
next
  assume a: "(t \<noteq> BinaryMessage \<or> isl (parse b)) \<and> (\<forall>v\<in>set bs. \<not> isl (parse v))"
  then have drop: "\<And>xs. readLoop parse pw ww (DataFrame t b # xs) h = readLoop parse pw ww xs h"
    by (cases "parse b") auto
  from a have v: "\<forall>v\<in>set bs. \<not> isl (parse v)" by simp
  show "readLoop parse pw ww (DataFrame t b # map (DataFrame BinaryMessage) bs @ ins) h =
      readLoop parse pw ww ins
        (h\<lparr>HubConnection.readChannel :=
             (HubConnection.readChannel h)\<lparr>buf := buf (HubConnection.readChannel h) @ map (projr \<circ> parse) bs\<rparr>,
           trace := trace h @ replicate (length bs) (ChanSend HubReadCh)\<rparr>)"
    by (simp only: drop readLoop_valid [OF v])
next
  assume a: "(t \<noteq> BinaryMessage \<or> isl (parse b)) \<and> (\<forall>v\<in>set bs. \<not> isl (parse v))"
  then have drop: "\<And>xs. readLoop parse pw ww (DataFrame t b # xs) h = readLoop parse pw ww xs h"
    by (cases "parse b") auto
  from a have v: "\<forall>v\<in>set bs. \<not> isl (parse v)" by simp
  show "readLoop parse pw ww (DataFrame t b # map (DataFrame BinaryMessage) bs) h =
        Waiting
          (h\<lparr>HubConnection.readChannel :=
             (HubConnection.readChannel h)\<lparr>buf := buf (HubConnection.readChannel h) @ map (projr \<circ> parse) bs\<rparr>,
           trace := trace h @ replicate (length bs) (ChanSend HubReadCh)\<rparr>)"
    using readLoop_valid [OF v, of pw ww "[]" h] unfolding drop by simp
qed

theorem readLoop_resilient_witness:
  "readLoop stubParse 60 10 [DataFrame TextMessage [1], ReadError (OtherError ''eof'')] zeroHub =
     readLoop stubParse 60 10 [ReadError (OtherError ''eof'')] zeroHub
   \<and> readLoop stubParse 60 10 [DataFrame BinaryMessage [], ReadError (OtherError ''eof'')] zeroHub =
     readLoop stubParse 60 10 [ReadError (OtherError ''eof'')] zeroHub
   \<and> readLoop stubParse 60 10
       (DataFrame BinaryMessage [] # map (DataFrame BinaryMessage) [[1], [2], [3]]) zeroHub =
     Waiting
       (zeroHub\<lparr>HubConnection.readChannel :=
                  \<lparr>buf = [\<lparr>EventWrapper.Room = ''ITB-1101'', Event = [1]\<rparr>,
                          \<lparr>EventWrapper.Room = ''ITB-1101'', Event = [2]\<rparr>,
                          \<lparr>EventWrapper.Room = ''ITB-1101'', Event = [3]\<rparr>],
                   closed = False\<rparr>,
                trace := [ChanSend HubReadCh, ChanSend HubReadCh, ChanSend HubReadCh]\<rparr>)"
proof -
  have one: "readLoop stubParse 60 10 [DataFrame TextMessage [1], ReadError (OtherError ''eof'')] zeroHub =
     readLoop stubParse 60 10 [ReadError (OtherError ''eof'')] zeroHub"
    using readLoop_resilient
      [where t = TextMessage and parse = stubParse and b = "[1]" and bs = "[]"
         and ins = "[ReadError (OtherError ''eof'')]" and h = zeroHub and pw = 60 and ww = 10]
    by simp
  have two: "readLoop stubParse 60 10 [DataFrame BinaryMessage [], ReadError (OtherError ''eof'')] zeroHub =
     readLoop stubParse 60 10 [ReadError (OtherError ''eof'')] zeroHub"
    using readLoop_resilient
      [where t = BinaryMessage and parse = stubParse and b = "[]" and bs = "[]"
         and ins = "[ReadError (OtherError ''eof'')]" and h = zeroHub and pw = 60 and ww = 10]
    by (simp add: stubParse_def)
  have three: "readLoop stubParse 60 10
       (DataFrame BinaryMessage [] # map (DataFrame BinaryMessage) [[1], [2], [3]]) zeroHub =
     Waiting
       (zeroHub\<lparr>HubConnection.readChannel :=
                  \<lparr>buf = [\<lparr>EventWrapper.Room = ''ITB-1101'', Event = [1]\<rparr>,
                          \<lparr>EventWrapper.Room = ''ITB-1101'', Event = [2]\<rparr>,
                          \<lparr>EventWrapper.Room = ''ITB-1101'', Event = [3]\<rparr>],
                   closed = False\<rparr>,
                trace := [ChanSend HubReadCh, ChanSend HubReadCh, ChanSend HubReadCh]\<rparr>)"
    using readLoop_resilient
      [where t = BinaryMessage and parse = stubParse and b = "[]" and bs = "[[1], [2], [3]]"
         and ins = "[]" and h = zeroHub and pw = 60 and ww = 10]
    by (simp add: stubParse_def zeroHub_def make_chan_def)
  from one two three show ?thesis by blast
qed














section \<open>The state field along the life of a hub connection\<close>

lemma stateWrites_append [simp]: "stateWrites (xs @ ys) = stateWrites xs @ stateWrites ys"
  by (induction xs rule: stateWrites.induct) simp_all

lemma stateWrites_dials [simp]: "stateWrites (concat (replicate K [Sleep d, Dial u])) = []"
  by (induction K) simp_all



















section \<open>Facts about the pumping station\<close>

lemma pemit_sel [simp]:
  "ptrace (pemit as c) = ptrace c @ as"
  "ID (pemit as c) = ID c"
  "readExit (pemit as c) = readExit c"
  "writeExit (pemit as c) = writeExit c"
  "errorChan (pemit as c) = errorChan c"
  "readChannel (pemit as c) = readChannel c"
  "writeChannel (pemit as c) = writeChannel c"
  "SendChannel (pemit as c) = SendChannel c"
  "ReceiveChannel (pemit as c) = ReceiveChannel c"
  by (simp_all add: pemit_def)

lemma TTL_value: "TTL = 5000000000"
  by (simp add: TTL_def Second_def)

text \<open>
  Claim C10. In the station's read pump a read error that is a network timeout does not end
  the loop while no exit signal is pending: the read deadline is set to the clock's reading
  plus TTL (5 seconds) and the loop reads on. With the exit signal pending the pump takes it
  and returns, sending nothing on the error channel. Every error that is not a timeout is
  sent on the error channel, and the pump returns.
\<close>

theorem readLoop_repeater_timeout:
  "(isTimeout err \<and> chan_recv (readExit c) = None \<longrightarrow>
      readLoop_repeater ((JSONError err, now) # ins) c =
      readLoop_repeater ins (c\<lparr>ptrace := ptrace c @ [SetReadDeadline (now + 5000000000)]\<rparr>))
   \<and> (isTimeout err \<and> chan_recv (readExit c) = Some (v, ch) \<longrightarrow>
      readLoop_repeater ((JSONError err, now) # ins) c =
      Returned (c\<lparr>readExit := ch, ptrace := ptrace c @ [ChanRecv ReadExitCh]\<rparr>))
   \<and> (\<not> isTimeout err \<longrightarrow>
      readLoop_repeater ((JSONError err, now) # ins) c =
      Returned (c\<lparr>errorChan := chan_send err (errorChan c), ptrace := ptrace c @ [ChanSend ErrorCh]\<rparr>))"
  by (cases err) (auto simp: pemit_def reportError_def TTL_value)

theorem readLoop_repeater_timeout_witness:
  "readLoop_repeater [(JSONError (NetError True), 1000)] idleStation =
     Waiting (idleStation\<lparr>ptrace := [Go GoStart, SetReadDeadline 5000001000]\<rparr>)
   \<and> readLoop_repeater [(JSONError (NetError True), 1000)]
       (idleStation\<lparr>readExit := \<lparr>buf = [True], closed = False\<rparr>\<rparr>) =
     Returned (idleStation\<lparr>readExit := \<lparr>buf = [], closed = False\<rparr>,
                 ptrace := [Go GoStart, ChanRecv ReadExitCh]\<rparr>)
   \<and> readLoop_repeater [(JSONError (OtherError ''EOF''), 1000)] idleStation =
     Returned (idleStation\<lparr>errorChan := \<lparr>buf = [OtherError ''EOF''], closed = False\<rparr>,
                 ptrace := [Go GoStart, ChanSend ErrorCh]\<rparr>)"
proof -
  have tr: "ptrace idleStation = [Go GoStart]"
    and rx: "readExit idleStation = \<lparr>buf = [], closed = False\<rparr>"
    and ec: "errorChan idleStation = \<lparr>buf = [], closed = False\<rparr>"
    by (simp_all add: idleStation_def StartConnection_def make_chan_def)
  have one: "readLoop_repeater [(JSONError (NetError True), 1000)] idleStation =
     Waiting (idleStation\<lparr>ptrace := [Go GoStart, SetReadDeadline 5000001000]\<rparr>)"
    using readLoop_repeater_timeout
      [where err = "NetError True" and c = idleStation and now = 1000 and ins = "[]"]
    by (simp add: tr rx chan_recv_def)
  have two: "readLoop_repeater [(JSONError (NetError True), 1000)]
       (idleStation\<lparr>readExit := \<lparr>buf = [True], closed = False\<rparr>\<rparr>) =
     Returned (idleStation\<lparr>readExit := \<lparr>buf = [], closed = False\<rparr>,
                 ptrace := [Go GoStart, ChanRecv ReadExitCh]\<rparr>)"
    using readLoop_repeater_timeout
      [where err = "NetError True" and c = "idleStation\<lparr>readExit := \<lparr>buf = [True], closed = False\<rparr>\<rparr>"
         and now = 1000 and ins = "[]" and v = "Some True"
         and ch = "\<lparr>buf = [], closed = False\<rparr>"]
    by (simp add: tr chan_recv_def)
  have three: "readLoop_repeater [(JSONError (OtherError ''EOF''), 1000)] idleStation =
     Returned (idleStation\<lparr>errorChan := \<lparr>buf = [OtherError ''EOF''], closed = False\<rparr>,
                 ptrace := [Go GoStart, ChanSend ErrorCh]\<rparr>)"
    using readLoop_repeater_timeout
      [where err = "OtherError ''EOF''" and c = idleStation and now = 1000 and ins = "[]"]
    by (simp add: tr ec chan_send_def)
  from one two three show ?thesis by blast
qed

lemma pumperSelect_trace:
  "pumperSelect zero s c = Returned c' \<Longrightarrow>
   ID c' = ID c \<and> writeExit c' = writeExit c \<and> readExit c' = readExit c \<and>
   (\<exists>pre. ptrace c' = ptrace c @ pre \<and> ConnClose \<notin> set pre \<and>
      (\<forall>x \<in> set pre. \<exists>n. x = ChanRecv n \<or> x = ChanSend n))"
  by (cases s) (auto simp: pemit_def split: option.splits if_splits)

text \<open>
  Claim C6. Whenever \<open>startPumper\<close> returns, whatever the \<open>select\<close> serviced, the last things
  it did are, in this order: unregister the connection's ID, signal the write pump and the
  read pump to stop, sleep one TTL (5 seconds), close the socket. The socket is not closed
  before. A tick always lets it return.
\<close>

theorem startPumper_cleanup:
  "(startPumper zero t1 t2 sels c = Returned c' \<longrightarrow>
      (\<exists>pre. ptrace c' = ptrace c @ pre @
                [UnregisterConnection (ID c), ChanSend WriteExitCh, ChanSend ReadExitCh,
                 Sleep 5000000000, ConnClose] \<and>
              ConnClose \<notin> set pre) \<and>
      writeExit c' = chan_send True (writeExit c) \<and>
      readExit c' = chan_send True (readExit c))
   \<and> (\<exists>c'. startPumper zero t1 t2 (SelTick now1 now2 # rest) c = Returned c')"
proof (intro conjI impI)
  assume a: "startPumper zero t1 t2 sels c = Returned c'"
  let ?c1 = "c\<lparr>readTimeout := t1 + TTL, writeTimeout := t2 + TTL\<rparr>"
  from a obtain s c2 where sel: "pumperSelect zero s ?c1 = Returned c2"
    and c': "c' = pumperDeferred c2"
    by (auto simp: startPumper_def Let_def split: list.splits run.splits)
  from pumperSelect_trace [OF sel] obtain pre where
    p: "ID c2 = ID c" "writeExit c2 = writeExit c" "readExit c2 = readExit c"
       "ptrace c2 = ptrace c @ pre" "ConnClose \<notin> set pre"
    by auto
  from p c' show "\<exists>pre. ptrace c' = ptrace c @ pre @
                [UnregisterConnection (ID c), ChanSend WriteExitCh, ChanSend ReadExitCh,
                 Sleep 5000000000, ConnClose] \<and> ConnClose \<notin> set pre"
    by (auto simp: pumperDeferred_def TTL_value)
  from p c' show "writeExit c' = chan_send True (writeExit c)"
    by (simp add: pumperDeferred_def pemit_def)
  from p c' show "readExit c' = chan_send True (readExit c)"
    by (simp add: pumperDeferred_def pemit_def)
next
  show "\<exists>c'. startPumper zero t1 t2 (SelTick now1 now2 # rest) c = Returned c'"
    by (simp add: startPumper_def)
qed

theorem startPumper_cleanup_witness:
  "\<exists>c'. startPumper (0::nat) 100 100 [SelTick 6000000000 6000000000] idleStation = Returned c' \<and>
        (\<exists>pre. ptrace c' = [Go GoStart] @ pre @
                  [UnregisterConnection ''CP1'', ChanSend WriteExitCh, ChanSend ReadExitCh,
                   Sleep 5000000000, ConnClose] \<and>
                ConnClose \<notin> set pre) \<and>
        writeExit c' = \<lparr>buf = [True], closed = False\<rparr> \<and>
        readExit c' = \<lparr>buf = [True], closed = False\<rparr>"
proof -
  have f: "ptrace idleStation = [Go GoStart]" "ID idleStation = ''CP1''"
          "writeExit idleStation = \<lparr>buf = [], closed = False\<rparr>"
          "readExit idleStation = \<lparr>buf = [], closed = False\<rparr>"
    by (simp_all add: idleStation_def StartConnection_def make_chan_def)
  from startPumper_cleanup
    [where zero = "0::nat" and ?t1.0 = 100 and ?t2.0 = 100 and ?now1.0 = 6000000000
       and ?now2.0 = 6000000000 and rest = "[]" and c = idleStation]
  obtain c' where
    r: "startPumper (0::nat) 100 100 [SelTick 6000000000 6000000000] idleStation = Returned c'"
    by blast
  from startPumper_cleanup
    [where zero = "0::nat" and ?t1.0 = 100 and ?t2.0 = 100
       and sels = "[SelTick 6000000000 6000000000]" and c = idleStation and c' = c'] r
  have "(\<exists>pre. ptrace c' = [Go GoStart] @ pre @
                  [UnregisterConnection ''CP1'', ChanSend WriteExitCh, ChanSend ReadExitCh,
                   Sleep 5000000000, ConnClose] \<and>
                ConnClose \<notin> set pre) \<and>
        writeExit c' = \<lparr>buf = [True], closed = False\<rparr> \<and>
        readExit c' = \<lparr>buf = [True], closed = False\<rparr>"
    by (simp add: f chan_send_def)
  with r show ?thesis by blast
qed

text \<open>
  Claim C1 against the code. The \<open>select\<close> of \<open>startPumper\<close> stands in no loop. With two
  events waiting on the send queue, the pumper forwards the first, refreshes the write
  deadline, and then runs its deferred function and closes the socket: the second event is
  never serviced. A tick at which neither deadline has passed ends it as well.
\<close>

theorem startPumper_single_select:
  "(\<exists>c'. startPumper (0::nat) 100 100 [SelSend 200, SelSend 300] busyStation = Returned c' \<and>
         buf (writeChannel c') = [11] \<and> buf (SendChannel c') = [12] \<and>
         writeTimeout c' = 5000000200 \<and>
         ptrace c' =
           [Go GoStart, ChanRecv SendCh, ChanSend PeerWriteCh,
            UnregisterConnection ''CP1'', ChanSend WriteExitCh, ChanSend ReadExitCh,
            Sleep 5000000000, ConnClose])
   \<and> (\<exists>c'. startPumper (0::nat) 100 100 [SelTick 150 150] busyStation = Returned c' \<and>
         readTimeout c' = 5000000100 \<and> writeTimeout c' = 5000000100 \<and>
         ptrace c' =
           [Go GoStart, UnregisterConnection ''CP1'', ChanSend WriteExitCh, ChanSend ReadExitCh,
            Sleep 5000000000, ConnClose])"
  by (simp add: startPumper_def pumperDeferred_def pemit_def busyStation_def idleStation_def
        StartConnection_def chan_recv_def chan_send_def make_chan_def orZero_def TTL_value)

text \<open>
  Claim C2, as the code has it. \<open>StartConnection\<close> always returns a \<open>nil\<close> error: it has only
  started \<open>start\<close> as a goroutine. When the dial then fails, \<open>start\<close> unregisters the
  connection and returns: no pump is started and the pumper is not run.
\<close>

theorem StartConnection_async:
  "snd (StartConnection proc room rep) = None
   \<and> ptrace (fst (StartConnection proc room rep)) = [Go GoStart]
   \<and> start (Inr addr) (Inl e) zero t1 t2 sels c =
       Returned (c\<lparr>remoteaddr := addr,
                   ptrace := ptrace c @
                     [GetDevice (ID c),
                      Dial (''ws://'' @ addr @ '':6998/repeaterconn''),
                      UnregisterConnection (ID c)]\<rparr>)"
  by (simp add: StartConnection_def start_def openConn_def pemit_def translatorport_def)

text \<open>
  Claim C2 as stated does not hold: the dial fails with a connection error, and the error
  that \<open>StartConnection\<close> returned is \<open>nil\<close>.
\<close>

theorem StartConnection_reports_nothing:
  "snd (StartConnection ''CP1'' ''ITB-1101'' \<lparr>HubSendBuffer = (make_chan :: nat chan)\<rparr>) = None
   \<and> fst (openConn ''10.5.34.21'' (Inl ''connection refused'') idleStation) =
       Some (NErr ''failed opening websocket with 10.5.34.21: connection refused'' ''connection-error'')"
  by (simp add: StartConnection_def openConn_def)

end
